theory Spec2Isabelle
  imports Complex_Main "HOL-Library.Word" "HOL-Library.AList"
begin

section \<open>The benchmark driver \<open>experiments/run-big-bench.py\<close>\<close>

text \<open>
  The driver loads a dataset, builds an index with one of two backends (FlatNav or
  hnswlib), scores it and appends one record per parameter combination to a JSON file.
  The backends, numpy and the json module are libraries: the model records every call
  made to a backend as an event of a trace, takes the backends' answers from an
  environment, and keeps the metrics file as an abstract JSON document.

  Python floats are idealised as rationals: sums, quotients and comparisons are exact.
\<close>

subsection \<open>Data\<close>

datatype error =
    ValueError string
  | RuntimeError string
  | ZeroDivisionError
  | IndexError
  | TypeError
  | AttributeError
  | UnicodeDecodeError
  | RecursionError

text \<open>JSON values, as \<open>json.load\<close> returns them and \<open>json.dump\<close> takes them. An object
  is an association list in insertion order, as a Python dict is.\<close>

datatype json =
    JNull
  | JBool bool
  | JInt int
  | JNum rat
  | JStr string
  | JArr "json list"
  | JObj "(string \<times> json) list"

type_synonym metrics = "(string \<times> json) list"

text \<open>The runtime class of an index handle: \<open>flatnav.index.L2Index\<close>,
  \<open>flatnav.index.IPIndex\<close> or \<open>hnswlib.Index\<close>.\<close>

datatype index = L2Index | IPIndex | HnswlibIndex

text \<open>Calls to the backends and to the logger, in the order they are issued.\<close>

datatype 'q event =
    Hnsw_Index string int
    \<comment> \<open>\<open>hnswlib.Index(space, dim)\<close>\<close>
  | Hnsw_init_index int int int
    \<comment> \<open>\<open>init_index(max_elements, ef_construction, M)\<close>\<close>
  | Hnsw_add_items int
    \<comment> \<open>\<open>add_items(data, ids=np.arange(dataset_size))\<close>\<close>
  | Hnsw_save_base_layer_graph string
  | Hnsw_set_ef int
  | Hnsw_knn_query 'q int
    \<comment> \<open>\<open>knn_query(data=np.array([query]), k)\<close>\<close>
  | Flatnav_index_factory string int "int option" "int option" "string option"
    \<comment> \<open>\<open>index_factory(distance_type, dim, dataset_size, max_edges_per_node, mtx_filename)\<close>\<close>
  | Flatnav_allocate_nodes
  | Flatnav_build_graph_links
  | Flatnav_add int int
    \<comment> \<open>\<open>add(data, ef_construction, num_initializations)\<close>\<close>
  | Flatnav_reorder "string list"
  | Flatnav_search_single 'q int int int
    \<comment> \<open>\<open>search_single(query, ef_search, K, num_initializations)\<close>\<close>
  | Set_num_threads index int
  | Logging_info string
  | Logging_error string

text \<open>The metrics file on disk, a regular file that can be opened, by what reading it
  does (lines 389 to 394):
  \<^item> \<open>No_file\<close>: the path does not exist;
  \<^item> \<open>Empty_file\<close>: the file has size zero;
  \<^item> \<open>Undecodable_bytes\<close>: the bytes are not text in the encoding of the text-mode
    \<open>open\<close>, so that reading raises UnicodeDecodeError;
  \<^item> \<open>Nested_too_deep\<close>: text nested beyond the recursion limit of the interpreter,
    well-formed or not, on which \<open>json.load\<close> raises RecursionError;
  \<^item> \<open>Invalid_json\<close>: any other text that is not JSON, on which \<open>json.load\<close> raises
    \<open>json.JSONDecodeError\<close>;
  \<^item> \<open>Valid_json\<close>: the text of a JSON document, which \<open>json.load\<close> returns.\<close>

datatype store_file =
    No_file
  | Empty_file
  | Undecodable_bytes
  | Nested_too_deep
  | Invalid_json
  | Valid_json json

record 'q world =
  trace :: "'q event list"
  mtx_files :: "string set"
  metrics_file :: store_file

text \<open>What the libraries answer. \<open>index_factory\<close> is the class of the handle that
  \<open>flatnav.index.index_factory\<close> returns for a distance type (or the error it raises);
  \<open>reply\<close> is the answer to a single search: the ids returned and the wall-clock time
  the call took (\<open>end - start\<close>), which may depend on everything done to the index so
  far, that is on the trace up to and including the search call.\<close>

record 'q env =
  index_factory :: "string \<Rightarrow> error + index"
  reply :: "'q event list \<Rightarrow> int list \<times> rat"

definition emit :: "'q event list \<Rightarrow> 'q world \<Rightarrow> 'q world" where
  "emit es w = w\<lparr>trace := trace w @ es\<rparr>"

subsection \<open>\<open>compute_metrics\<close>\<close>

text \<open>The two search loops (lines 148 to 167): one search per query, timed.\<close>

fun search_flatnav ::
  "'q env \<Rightarrow> 'q list \<Rightarrow> int \<Rightarrow> int \<Rightarrow> rat list \<Rightarrow> int list list \<Rightarrow> 'q world
   \<Rightarrow> (rat list \<times> int list list) \<times> 'q world" where
  "search_flatnav env [] ef_search k latencies top_k_indices w = ((latencies, top_k_indices), w)"
| "search_flatnav env (query # rest) ef_search k latencies top_k_indices w =
     (let w1 = emit [Flatnav_search_single query ef_search k 100] w;
          (indices, elapsed) = reply env (trace w1)
      in search_flatnav env rest ef_search k (latencies @ [elapsed]) (top_k_indices @ [indices]) w1)"

fun search_hnsw ::
  "'q env \<Rightarrow> 'q list \<Rightarrow> int \<Rightarrow> rat list \<Rightarrow> int list list \<Rightarrow> 'q world
   \<Rightarrow> (rat list \<times> int list list) \<times> 'q world" where
  "search_hnsw env [] k latencies top_k_indices w = ((latencies, top_k_indices), w)"
| "search_hnsw env (query # rest) k latencies top_k_indices w =
     (let w1 = emit [Hnsw_knn_query query k] w;
          (indices, elapsed) = reply env (trace w1)
      in search_hnsw env rest k (latencies @ [elapsed]) (top_k_indices @ [indices]) w1)"

text \<open>\<open>np.mean\<close> and \<open>np.percentile\<close> (linear interpolation between the two nearest
  ranks, numpy's default), on a non-empty list.\<close>

definition np_mean :: "rat list \<Rightarrow> rat" where
  "np_mean xs = sum_list xs / of_nat (length xs)"

definition np_percentile :: "rat list \<Rightarrow> rat \<Rightarrow> rat" where
  "np_percentile xs q =
     (let s = sort xs;
          n = length xs;
          pos = of_nat (n - 1) * q / 100;
          lo = nat \<lfloor>pos\<rfloor>;
          hi = min (lo + 1) (n - 1);
          t = pos - of_nat lo
      in s ! lo + (s ! hi - s ! lo) * t)"

text \<open>The recall loop (lines 195 to 201). \<open>ground_truth_sets[idx]\<close> is read inside the
  generator, so only when the row has a neighbour; \<open>query_recall / k\<close> divides two
  Python ints.\<close>

fun recall_loop ::
  "int list list \<Rightarrow> int set list \<Rightarrow> nat \<Rightarrow> int \<Rightarrow> rat \<Rightarrow> error + rat" where
  "recall_loop [] ground_truth_sets idx k mean_recall = Inr mean_recall"
| "recall_loop (k_neighbors # rest) ground_truth_sets idx k mean_recall =
     (if k_neighbors \<noteq> [] \<and> length ground_truth_sets \<le> idx then Inl IndexError
      else if k = 0 then Inl ZeroDivisionError
      else
        let query_recall = length (filter (\<lambda>neighbor. neighbor \<in> ground_truth_sets ! idx) k_neighbors)
        in recall_loop rest ground_truth_sets (idx + 1) k (mean_recall + of_nat query_recall / of_int k))"

text \<open>Lines 169 to 206, after the searches.\<close>

definition compute_metrics_score ::
  "string list \<Rightarrow> nat \<Rightarrow> int list list \<Rightarrow> int \<Rightarrow> rat list \<Rightarrow> int list list \<Rightarrow> error + metrics" where
  "compute_metrics_score requested_metrics num_queries ground_truth k latencies top_k_indices =
     (if \<not> list_all (\<lambda>indices. int (length indices) = k) top_k_indices
      then Inl (RuntimeError ''Not all queries returned the same number of results.'')
      else if top_k_indices = [] then Inl (ValueError ''need at least one array to stack'')
      else
        let querying_time = sum_list latencies in
        if ''qps'' \<in> set requested_metrics \<and> querying_time = 0 then Inl ZeroDivisionError
        else
          let m0 = [];
              m1 = (if ''qps'' \<in> set requested_metrics
                    then AList.update ''qps'' (JNum (of_nat num_queries / querying_time)) m0 else m0);
              m2 = (if ''latency'' \<in> set requested_metrics
                    then AList.update ''latency'' (JNum (np_mean latencies * 1000)) m1 else m1);
              m3 = (if ''latency_p95'' \<in> set requested_metrics
                    then AList.update ''latency_p95'' (JNum (np_percentile latencies 95 * 1000)) m2 else m2);
              m4 = (if ''latency_p99'' \<in> set requested_metrics
                    then AList.update ''latency_p99'' (JNum (np_percentile latencies 99 * 1000)) m3 else m3);
              m5 = (if ''latency_p999'' \<in> set requested_metrics
                    then AList.update ''latency_p999'' (JNum (np_percentile latencies (999 / 10) * 1000)) m4 else m4);
              ground_truth_sets = map set ground_truth
          in case recall_loop top_k_indices ground_truth_sets 0 k 0 of
               Inl e \<Rightarrow> Inl e
             | Inr mean_recall \<Rightarrow>
                 Inr (AList.update ''recall'' (JNum (mean_recall / of_nat num_queries)) m5))"

definition is_flatnav_index :: "index \<Rightarrow> bool" where
  "is_flatnav_index index \<longleftrightarrow> index = L2Index \<or> index = IPIndex"

definition compute_metrics_search ::
  "'q env \<Rightarrow> index \<Rightarrow> 'q list \<Rightarrow> int \<Rightarrow> int \<Rightarrow> 'q world
   \<Rightarrow> (rat list \<times> int list list) \<times> 'q world" where
  "compute_metrics_search env index queries ef_search k w =
     (if is_flatnav_index index then search_flatnav env queries ef_search k [] [] w
      else search_hnsw env queries k [] [] (emit [Hnsw_set_ef ef_search] w))"

definition compute_metrics ::
  "'q env \<Rightarrow> string list \<Rightarrow> index \<Rightarrow> 'q list \<Rightarrow> int list list \<Rightarrow> int \<Rightarrow> int \<Rightarrow> 'q world
   \<Rightarrow> (error + metrics) \<times> 'q world" where
  "compute_metrics env requested_metrics index queries ground_truth ef_search k w =
     (let ((latencies, top_k_indices), w1) = compute_metrics_search env index queries ef_search k w
      in (compute_metrics_score requested_metrics (length queries) ground_truth k latencies top_k_indices, w1))"

subsection \<open>\<open>train_index\<close>\<close>

definition create_and_train_hnsw_index ::
  "string \<Rightarrow> int \<Rightarrow> int \<Rightarrow> int \<Rightarrow> int \<Rightarrow> int \<Rightarrow> 'q world \<Rightarrow> index \<times> 'q world" where
  "create_and_train_hnsw_index space dimension dataset_size ef_construction max_edges_per_node num_threads w =
     (HnswlibIndex,
      emit [Hnsw_Index space dimension,
            Hnsw_init_index dataset_size ef_construction max_edges_per_node,
            Set_num_threads HnswlibIndex num_threads,
            Hnsw_add_items dataset_size,
            Logging_info ''Indexing time''] w)"

text \<open>A filename is falsy in Python when it is \<open>None\<close> or the empty string.\<close>

definition falsy :: "string option \<Rightarrow> bool" where
  "falsy s \<longleftrightarrow> s = None \<or> s = Some []"

definition train_index ::
  "'q env \<Rightarrow> string \<Rightarrow> int \<Rightarrow> int \<Rightarrow> int \<Rightarrow> int \<Rightarrow> string \<Rightarrow> bool \<Rightarrow> string option \<Rightarrow> int
   \<Rightarrow> 'q world \<Rightarrow> (error + index) \<times> 'q world" where
  "train_index env distance_type dimension dataset_size max_edges_per_node ef_construction
     index_type use_hnsw_base_layer hnsw_base_layer_filename num_build_threads w =
     (if index_type = ''hnsw'' then
        let distance_type' = (if distance_type = ''l2'' then distance_type else ''ip'');
            (hnsw_index, w1) = create_and_train_hnsw_index distance_type' dimension dataset_size
               ef_construction (max_edges_per_node div 2) num_build_threads w
        in (Inr hnsw_index, w1)
      else if use_hnsw_base_layer then
        (if falsy hnsw_base_layer_filename
         then (Inl (ValueError ''Must provide a filename for the HNSW base layer graph.''), w)
         else
           let filename = the hnsw_base_layer_filename;
               distance_type' = (if distance_type = ''l2'' then distance_type else ''ip'');
               (hnsw_index, w1) = create_and_train_hnsw_index distance_type' dimension dataset_size
                  ef_construction (max_edges_per_node div 2) num_build_threads w;
               w2 = (emit [Hnsw_save_base_layer_graph filename] w1)
                      \<lparr>mtx_files := insert filename (mtx_files w1)\<rparr>;
               w3 = emit [Flatnav_index_factory distance_type dimension None None (Some filename)] w2
           in case index_factory env distance_type of
                Inl e \<Rightarrow> (Inl e, w3)
              | Inr index \<Rightarrow> (Inr index, emit [Flatnav_allocate_nodes, Flatnav_build_graph_links] w3))
      else
        let w1 = emit [Flatnav_index_factory distance_type dimension (Some dataset_size)
                         (Some max_edges_per_node) None] w
        in case index_factory env distance_type of
             Inl e \<Rightarrow> (Inl e, w1)
           | Inr index \<Rightarrow>
               (Inr index,
                emit [Set_num_threads index num_build_threads,
                      Flatnav_add ef_construction 100,
                      Logging_info ''Indexing time''] w1))"

subsection \<open>\<open>main\<close>\<close>

text \<open>Lines 387 to 394: the store as read. Only \<open>json.JSONDecodeError\<close> is caught (and
  logged, the empty store being kept); any other exception of the read leaves \<open>main\<close>.\<close>

definition main_read_store :: "string \<Rightarrow> 'q world \<Rightarrow> (error + json) \<times> 'q world" where
  "main_read_store index_type w =
     (let all_metrics0 = JObj [(index_type, JArr [])]
      in case metrics_file w of
           No_file \<Rightarrow> (Inr all_metrics0, w)
         | Empty_file \<Rightarrow> (Inr all_metrics0, w)
         | Undecodable_bytes \<Rightarrow> (Inl UnicodeDecodeError, w)
         | Nested_too_deep \<Rightarrow> (Inl RecursionError, w)
         | Invalid_json \<Rightarrow> (Inr all_metrics0, emit [Logging_error ''Error reading metrics_file''] w)
         | Valid_json doc \<Rightarrow> (Inr doc, w))"

text \<open>Lines 385 to 401: read the store, merge the record, write the store back.\<close>

definition main_persist :: "string \<Rightarrow> metrics \<Rightarrow> 'q world \<Rightarrow> (error + unit) \<times> 'q world" where
  "main_persist index_type metrics w =
     (case main_read_store index_type w of
        (Inl e, w1) \<Rightarrow> (Inl e, w1)
      | (Inr all_metrics, w1) \<Rightarrow>
          (case all_metrics of
             JObj kvs \<Rightarrow>
               (let kvs1 = (if index_type \<notin> fst ` set kvs
                            then AList.update index_type (JArr []) kvs else kvs)
                in case map_of kvs1 index_type of
                     Some (JArr records) \<Rightarrow>
                       (Inr (),
                        w1\<lparr>metrics_file :=
                             Valid_json (JObj (AList.update index_type (JArr (records @ [JObj metrics])) kvs1))\<rparr>)
                   | _ \<Rightarrow> (Inl AttributeError, w1))
           | _ \<Rightarrow> (Inl TypeError, w1)))"

definition all_requested_metrics :: "string list" where
  "all_requested_metrics =
     [''recall'', ''qps'', ''latency'', ''latency_p95'', ''latency_p99'', ''latency_p999'']"

text \<open>The loop over \<open>ef_search_params\<close> (lines 364 to 401). The variable \<open>metrics\<close> is
  rebound to the dictionary that \<open>compute_metrics\<close> returns.\<close>

fun main_ef_search_loop ::
  "'q env \<Rightarrow> int list \<Rightarrow> index \<Rightarrow> 'q list \<Rightarrow> int list list \<Rightarrow> string \<Rightarrow> string \<Rightarrow> metrics
   \<Rightarrow> 'q world \<Rightarrow> (error + metrics) \<times> 'q world" where
  "main_ef_search_loop env [] index queries gtruth distance_type index_type metrics w = (Inr metrics, w)"
| "main_ef_search_loop env (ef_search # rest) index queries gtruth distance_type index_type metrics w =
     (case compute_metrics env all_requested_metrics index queries gtruth ef_search 100 w of
        (Inl e, w1) \<Rightarrow> (Inl e, w1)
      | (Inr metrics1, w1) \<Rightarrow>
          let w2 = emit [Logging_info ''Recall@100''] w1;
              metrics2 = AList.update ''distance_type'' (JStr distance_type) metrics1
          in case main_persist index_type metrics2 w2 of
               (Inl e, w3) \<Rightarrow> (Inl e, w3)
             | (Inr u, w3) \<Rightarrow>
                 main_ef_search_loop env rest index queries gtruth distance_type index_type metrics2 w3)"

text \<open>The loop over \<open>ef_cons_params\<close> (lines 338 to 401). A dataset is passed on by its
  shape \<open>(dataset_size, dim)\<close>.\<close>

fun main_ef_cons_loop ::
  "'q env \<Rightarrow> int list \<Rightarrow> int \<Rightarrow> int \<times> int \<Rightarrow> 'q list \<Rightarrow> int list list \<Rightarrow> int list \<Rightarrow> string
   \<Rightarrow> string \<Rightarrow> bool \<Rightarrow> string option \<Rightarrow> string list option \<Rightarrow> int \<Rightarrow> int \<Rightarrow> metrics
   \<Rightarrow> 'q world \<Rightarrow> (error + metrics) \<times> 'q world" where
  "main_ef_cons_loop env [] node_links train_dataset queries gtruth ef_search_params distance_type
     index_type use_hnsw_base_layer hnsw_base_layer_filename reordering_strategies
     num_build_threads num_search_threads metrics w = (Inr metrics, w)"
| "main_ef_cons_loop env (ef_cons # rest) node_links train_dataset queries gtruth ef_search_params
     distance_type index_type use_hnsw_base_layer hnsw_base_layer_filename reordering_strategies
     num_build_threads num_search_threads metrics w =
     (let metrics1 = AList.update ''ef_construction'' (JInt ef_cons) metrics;
          w1 = emit [Logging_info ''Building index_type''] w
      in case train_index env distance_type (snd train_dataset) (fst train_dataset) node_links ef_cons
                index_type use_hnsw_base_layer hnsw_base_layer_filename num_build_threads w1 of
           (Inl e, w2) \<Rightarrow> (Inl e, w2)
         | (Inr index, w2) \<Rightarrow>
             (if reordering_strategies \<noteq> None \<and> \<not> is_flatnav_index index
              then (Inl (ValueError ''Reordering only applies to the FlatNav index.''), w2)
              else
                let w3 = (case reordering_strategies of
                            None \<Rightarrow> w2
                          | Some strategies \<Rightarrow> emit [Flatnav_reorder strategies] w2);
                    w4 = emit [Set_num_threads index num_search_threads] w3
                in case main_ef_search_loop env ef_search_params index queries gtruth distance_type
                          index_type metrics1 w4 of
                     (Inl e, w5) \<Rightarrow> (Inl e, w5)
                   | (Inr metrics2, w5) \<Rightarrow>
                       main_ef_cons_loop env rest node_links train_dataset queries gtruth
                         ef_search_params distance_type index_type use_hnsw_base_layer
                         hnsw_base_layer_filename reordering_strategies num_build_threads
                         num_search_threads metrics2 w5))"

text \<open>The loop over \<open>num_node_links\<close> (lines 335 to 401).\<close>

fun main_node_links_loop ::
  "'q env \<Rightarrow> int list \<Rightarrow> int list \<Rightarrow> int \<times> int \<Rightarrow> 'q list \<Rightarrow> int list list \<Rightarrow> int list \<Rightarrow> string
   \<Rightarrow> string \<Rightarrow> bool \<Rightarrow> string option \<Rightarrow> string list option \<Rightarrow> int \<Rightarrow> int \<Rightarrow> metrics
   \<Rightarrow> 'q world \<Rightarrow> (error + metrics) \<times> 'q world" where
  "main_node_links_loop env [] ef_cons_params train_dataset queries gtruth ef_search_params
     distance_type index_type use_hnsw_base_layer hnsw_base_layer_filename reordering_strategies
     num_build_threads num_search_threads metrics w = (Inr metrics, w)"
| "main_node_links_loop env (node_links # rest) ef_cons_params train_dataset queries gtruth
     ef_search_params distance_type index_type use_hnsw_base_layer hnsw_base_layer_filename
     reordering_strategies num_build_threads num_search_threads metrics w =
     (let metrics1 = AList.update ''node_links'' (JInt node_links) metrics
      in case main_ef_cons_loop env ef_cons_params node_links train_dataset queries gtruth
                ef_search_params distance_type index_type use_hnsw_base_layer
                hnsw_base_layer_filename reordering_strategies num_build_threads
                num_search_threads metrics1 w of
           (Inl e, w1) \<Rightarrow> (Inl e, w1)
         | (Inr metrics2, w1) \<Rightarrow>
             main_node_links_loop env rest ef_cons_params train_dataset queries gtruth
               ef_search_params distance_type index_type use_hnsw_base_layer
               hnsw_base_layer_filename reordering_strategies num_build_threads
               num_search_threads metrics2 w1)"

definition main ::
  "'q env \<Rightarrow> int \<times> int \<Rightarrow> 'q list \<Rightarrow> int list list \<Rightarrow> int list \<Rightarrow> int list \<Rightarrow> int list \<Rightarrow> string
   \<Rightarrow> string \<Rightarrow> bool \<Rightarrow> string option \<Rightarrow> string list option \<Rightarrow> int list option \<Rightarrow> int \<Rightarrow> int
   \<Rightarrow> 'q world \<Rightarrow> (error + unit) \<times> 'q world" where
  "main env train_dataset queries gtruth ef_cons_params ef_search_params num_node_links
     distance_type index_type use_hnsw_base_layer hnsw_base_layer_filename reordering_strategies
     num_initializations num_build_threads num_search_threads w =
     (case main_node_links_loop env num_node_links ef_cons_params train_dataset queries gtruth
             ef_search_params distance_type index_type use_hnsw_base_layer
             hnsw_base_layer_filename reordering_strategies num_build_threads
             num_search_threads [] w of
        (Inl e, w1) \<Rightarrow> (Inl e, w1)
      | (Inr metrics, w1) \<Rightarrow> (Inr (), w1))"

subsection \<open>\<open>run_experiment\<close>\<close>

text \<open>\<open>str.lower\<close> on ASCII text.\<close>

definition lower_char :: "char \<Rightarrow> char" where
  "lower_char c =
     (case map_of (zip ''ABCDEFGHIJKLMNOPQRSTUVWXYZ'' ''abcdefghijklmnopqrstuvwxyz'') c of
        Some l \<Rightarrow> l
      | None \<Rightarrow> c)"

definition str_lower :: "string \<Rightarrow> string" where
  "str_lower s = map lower_char s"

text \<open>The command-line arguments that reach \<open>main\<close>.\<close>

record args =
  arg_index_type :: string
  arg_use_hnsw_base_layer :: bool
  arg_hnsw_base_layer_filename :: "string option"
  arg_num_node_links :: "int list"
  arg_ef_construction :: "int list"
  arg_ef_search :: "int list"
  arg_num_initializations :: "int list option"
  arg_metric :: string
  arg_reordering_strategies :: "string list option"
  arg_num_build_threads :: int
  arg_num_search_threads :: int

text \<open>Lines 527 to 558. \<open>loaded\<close> is what \<open>load_benchmark_dataset\<close> returned or raised;
  the plotting that follows \<open>main\<close> belongs to another module and is left out.\<close>

definition run_experiment ::
  "'q env \<Rightarrow> args \<Rightarrow> error + ((int \<times> int) \<times> 'q list \<times> int list list) \<Rightarrow> 'q world
   \<Rightarrow> (error + unit) \<times> 'q world" where
  "run_experiment env a loaded w =
     (case loaded of
        Inl e \<Rightarrow> (Inl e, w)
      | Inr (train_data, queries, ground_truth) \<Rightarrow>
          let num_initializations = arg_num_initializations a in
          if str_lower (arg_index_type a) = ''hnsw'' \<and> num_initializations \<noteq> None
          then (Inl (ValueError ''HNSW does not support num_initializations.''), w)
          else
            main env train_data queries ground_truth (arg_ef_construction a) (arg_ef_search a)
              (arg_num_node_links a) (str_lower (arg_metric a)) (str_lower (arg_index_type a))
              (arg_use_hnsw_base_layer a) (arg_hnsw_base_layer_filename a)
              (arg_reordering_strategies a) num_initializations (arg_num_build_threads a)
              (arg_num_search_threads a) w)"

subsection \<open>\<open>load_ground_truth\<close>\<close>

text \<open>A file is its bytes. \<open>np.fromfile(f, dtype=np.uint32, count=1)\<close> reads four bytes
  (little-endian) at the file position, and returns an empty array when fewer are left,
  whose element \<open>[0]\<close> is an IndexError.\<close>

type_synonym byte = "8 word"

definition le_u32 :: "byte list \<Rightarrow> 32 word" where
  "le_u32 bs = word_of_nat (foldr (\<lambda>b acc. unat b + 256 * acc) bs 0)"

definition fromfile_u32 :: "byte list \<Rightarrow> nat \<Rightarrow> error + 32 word" where
  "fromfile_u32 file pos =
     (if pos + 4 \<le> length file then Inr (le_u32 (take 4 (drop pos file))) else Inl IndexError)"

text \<open>\<open>np.memmap(path, dtype, mode="r", shape=(rows, cols), offset)\<close> with a four-byte
  dtype maps \<open>offset + 4 * rows * cols\<close> bytes of the file and fails when the file is
  shorter. The view is kept as its 32-bit patterns (ids as they are, distances as the
  bits of their float32).\<close>

definition view_u32 :: "byte list \<Rightarrow> nat \<Rightarrow> nat \<Rightarrow> nat \<Rightarrow> 32 word list list" where
  "view_u32 file offset rows cols =
     map (\<lambda>i. map (\<lambda>j. le_u32 (take 4 (drop (offset + 4 * (i * cols + j)) file))) [0..<cols]) [0..<rows]"

definition np_memmap :: "byte list \<Rightarrow> nat \<Rightarrow> nat \<Rightarrow> nat \<Rightarrow> error + 32 word list list" where
  "np_memmap file offset rows cols =
     (if length file < offset + 4 * (rows * cols)
      then Inl (ValueError ''mmap length is greater than file size'')
      else Inr (view_u32 file offset rows cols))"

text \<open>The offset of the distance block, \<open>8 + (num_queries * K * 4)\<close>: the product of the
  two \<open>np.uint32\<close> header values wraps at 32 bits; the multiplication by the item size
  and the addition of 8 stay in 32 bits under NumPy 2 (\<open>nep50\<close>) and are done in 64
  bits under NumPy 1.\<close>

definition dists_offset :: "bool \<Rightarrow> 32 word \<Rightarrow> 32 word \<Rightarrow> nat" where
  "dists_offset nep50 num_queries K =
     (if nep50 then unat (8 + num_queries * K * 4) else 8 + unat (num_queries * K) * 4)"

definition load_ground_truth ::
  "bool \<Rightarrow> byte list
   \<Rightarrow> error + (32 word list list \<times> 32 word list list \<times> 32 word \<times> 32 word)" where
  "load_ground_truth nep50 file =
     (case fromfile_u32 file 0 of
        Inl e \<Rightarrow> Inl e
      | Inr num_queries \<Rightarrow>
          (case fromfile_u32 file 4 of
             Inl e \<Rightarrow> Inl e
           | Inr K \<Rightarrow>
               (case np_memmap file 8 (unat num_queries) (unat K) of
                  Inl e \<Rightarrow> Inl e
                | Inr ground_truth_ids \<Rightarrow>
                    (case np_memmap file (dists_offset nep50 num_queries K) (unat num_queries) (unat K) of
                       Inl e \<Rightarrow> Inl e
                     | Inr ground_truth_dists \<Rightarrow>
                         Inr (ground_truth_ids, ground_truth_dists, num_queries, K)))))"

text \<open>The size that the header of a ground-truth file declares: 8 bytes of header, then
  four bytes for each of the \<open>num_queries * K\<close> ids and four for each distance.\<close>

definition header_size :: "byte list \<Rightarrow> nat" where
  "header_size file =
     8 + 8 * (unat (le_u32 (take 4 file)) * unat (le_u32 (take 4 (drop 4 file))))"

subsection \<open>Recall as the specification words it\<close>

text \<open>For one query, the fraction of the returned ids that are members of the query's
  ground-truth id set; for a query set, the mean of these fractions over the queries.\<close>

definition query_recall_fraction :: "int list \<Rightarrow> int list \<Rightarrow> rat" where
  "query_recall_fraction returned truth =
     of_nat (length (filter (\<lambda>i. i \<in> set truth) returned)) / of_nat (length returned)"

definition mean_query_recall :: "int list list \<Rightarrow> int list list \<Rightarrow> rat" where
  "mean_query_recall top_k ground_truth =
     sum_list (map (\<lambda>(returned, truth). query_recall_fraction returned truth) (zip top_k ground_truth))
       / of_nat (length top_k)"

subsection \<open>Concrete inputs\<close>

text \<open>A FlatNav backend whose every search returns \<open>k\<close> times the id 7 in half a
  second, and a machine with no files.\<close>

definition env_example :: "nat \<Rightarrow> nat env" where
  "env_example k =
     \<lparr>index_factory = (\<lambda>distance_type. Inr L2Index), reply = (\<lambda>t. (replicate k 7, 1 / 2))\<rparr>"

text \<open>The same backend on a clock too coarse to see a search: every duration is 0.\<close>

definition env_instant :: "nat \<Rightarrow> nat env" where
  "env_instant k =
     \<lparr>index_factory = (\<lambda>distance_type. Inr L2Index), reply = (\<lambda>t. (replicate k 7, 0))\<rparr>"

definition world_empty :: "nat world" where
  "world_empty = \<lparr>trace = [], mtx_files = {}, metrics_file = No_file\<rparr>"

text \<open>A ground-truth file that declares one query and one neighbour (id 5, distance
  1.0) and is one byte longer than that.\<close>

definition file_example :: "byte list" where
  "file_example = [1, 0, 0, 0, 1, 0, 0, 0, 5, 0, 0, 0, 0, 0, 128, 63, 9]"

section \<open>Properties\<close>

subsection \<open>Events\<close>

lemma emit_emit: "emit es (emit ds w) = emit (ds @ es) w"
  by (simp add: emit_def)

lemma metrics_file_emit: "metrics_file (emit es w) = metrics_file w"
  by (simp add: emit_def)

lemma mtx_files_emit: "mtx_files (emit es w) = mtx_files w"
  by (simp add: emit_def)

lemma trace_emit: "trace (emit es w) = trace w @ es"
  by (simp add: emit_def)

subsection \<open>Building\<close>

text \<open>
  Claim C8. When the hnsw backend is built, \<open>train_index\<close> passes half of the requested
  node-link count (Python's floor division by 2) to \<open>init_index\<close> as \<open>M\<close>: the build
  issues exactly the five calls below and returns the hnswlib handle.
\<close>

theorem train_index_hnsw_halves_node_links:
  "train_index env distance_type dimension dataset_size max_edges_per_node ef_construction
     ''hnsw'' use_hnsw_base_layer hnsw_base_layer_filename num_build_threads w =
   (Inr HnswlibIndex,
    emit [Hnsw_Index (if distance_type = ''l2'' then ''l2'' else ''ip'') dimension,
          Hnsw_init_index dataset_size ef_construction (max_edges_per_node div 2),
          Set_num_threads HnswlibIndex num_build_threads,
          Hnsw_add_items dataset_size,
          Logging_info ''Indexing time''] w)"
  by (simp add: train_index_def create_and_train_hnsw_index_def)

theorem train_index_hnsw_halves_node_links_witness:
  "train_index (env_example 1) ''angular'' 4 1000 33 100 ''hnsw'' False None 1 world_empty =
   (Inr HnswlibIndex,
    world_empty\<lparr>trace := [Hnsw_Index ''ip'' 4, Hnsw_init_index 1000 100 16,
      Set_num_threads HnswlibIndex 1, Hnsw_add_items 1000, Logging_info ''Indexing time'']\<rparr>)"
  using train_index_hnsw_halves_node_links
    [of "env_example 1" "''angular''" 4 1000 33 100 False None 1 world_empty]
  by (simp add: emit_def world_empty_def)

text \<open>
  Claim C5, as amended. A FlatNav build that asks to reuse the hnsw base layer needs a
  base-layer filename, not an existing file: with no filename (or an empty one) the
  build fails with a ValueError before any backend call; with a filename the build
  itself builds the hnsw index, exports its base layer to that file and hands the file
  to the FlatNav factory, whose result is the result of the build.
\<close>

theorem train_index_base_layer_needs_filename_only:
  assumes "index_type \<noteq> ''hnsw''"
  shows "(falsy hnsw_base_layer_filename \<longrightarrow>
            train_index env distance_type dimension dataset_size max_edges_per_node ef_construction
              index_type True hnsw_base_layer_filename num_build_threads w
            = (Inl (ValueError ''Must provide a filename for the HNSW base layer graph.''), w))
       \<and> (\<not> falsy hnsw_base_layer_filename \<longrightarrow>
            fst (train_index env distance_type dimension dataset_size max_edges_per_node
                   ef_construction index_type True hnsw_base_layer_filename num_build_threads w)
              = index_factory env distance_type
          \<and> the hnsw_base_layer_filename \<in> mtx_files (snd (train_index env distance_type dimension
                   dataset_size max_edges_per_node ef_construction index_type True
                   hnsw_base_layer_filename num_build_threads w))
          \<and> take (length (trace w) + 7) (trace (snd (train_index env distance_type dimension
                   dataset_size max_edges_per_node ef_construction index_type True
                   hnsw_base_layer_filename num_build_threads w)))
              = trace w @
                [Hnsw_Index (if distance_type = ''l2'' then ''l2'' else ''ip'') dimension,
                 Hnsw_init_index dataset_size ef_construction (max_edges_per_node div 2),
                 Set_num_threads HnswlibIndex num_build_threads,
                 Hnsw_add_items dataset_size,
                 Logging_info ''Indexing time'',
                 Hnsw_save_base_layer_graph (the hnsw_base_layer_filename),
                 Flatnav_index_factory distance_type dimension None None
                   (Some (the hnsw_base_layer_filename))])"
  using assms
  by (auto simp add: train_index_def create_and_train_hnsw_index_def emit_def falsy_def Let_def
      split: sum.splits)

theorem train_index_base_layer_needs_filename_only_witness:
  "train_index (env_example 1) ''l2'' 4 1000 32 100 ''flatnav'' True None 1 world_empty
     = (Inl (ValueError ''Must provide a filename for the HNSW base layer graph.''), world_empty)
   \<and> fst (train_index (env_example 1) ''l2'' 4 1000 32 100 ''flatnav'' True (Some ''g.mtx'') 1 world_empty)
     = Inr L2Index"
  using train_index_base_layer_needs_filename_only
    [of "''flatnav''" None "env_example 1" "''l2''" 4 1000 32 100 1 world_empty]
    train_index_base_layer_needs_filename_only
    [of "''flatnav''" "Some ''g.mtx''" "env_example 1" "''l2''" 4 1000 32 100 1 world_empty]
  by (simp add: falsy_def env_example_def)

text \<open>
  The claim as stated fails: with a filename given, the build succeeds although the
  base-layer file does not exist beforehand.
\<close>

theorem train_index_base_layer_file_absent_counterexample:
  "''g.mtx'' \<notin> mtx_files world_empty
   \<and> fst (train_index (env_example 1) ''l2'' 4 1000 32 100 ''flatnav'' True (Some ''g.mtx'') 1 world_empty)
     = Inr L2Index"
  by (simp add: train_index_def create_and_train_hnsw_index_def emit_def falsy_def Let_def
      world_empty_def env_example_def)

subsection \<open>The sweep\<close>

text \<open>
  Claim C1, as amended. In a sweep on the hnsw index type with reordering strategies
  requested (and at least one node-link count and one construction width), \<open>main\<close>
  raises the configuration error right after the first index build and before any
  reordering, search or write of the metrics file: the only calls issued are those of
  one hnsw build, and the files are as they were.
\<close>

theorem main_hnsw_reordering_fails_after_first_build:
  "main env train_dataset queries gtruth (ef_cons # ef_cons_rest) ef_search_params
     (node_links # node_links_rest) distance_type ''hnsw'' use_hnsw_base_layer
     hnsw_base_layer_filename (Some strategies) num_initializations num_build_threads
     num_search_threads w =
   (Inl (ValueError ''Reordering only applies to the FlatNav index.''),
    emit [Logging_info ''Building index_type'',
          Hnsw_Index (if distance_type = ''l2'' then ''l2'' else ''ip'') (snd train_dataset),
          Hnsw_init_index (fst train_dataset) ef_cons (node_links div 2),
          Set_num_threads HnswlibIndex num_build_threads,
          Hnsw_add_items (fst train_dataset),
          Logging_info ''Indexing time''] w)"
  by (simp add: main_def train_index_def create_and_train_hnsw_index_def is_flatnav_index_def emit_emit)

theorem main_hnsw_reordering_fails_after_first_build_witness:
  "main (env_example 100) (1000, 4) [0] [[7]] [100, 200] [50] [16, 32] ''l2'' ''hnsw'' False None
     (Some [''gorder'']) None 1 1 world_empty =
   (Inl (ValueError ''Reordering only applies to the FlatNav index.''),
    world_empty\<lparr>trace := [Logging_info ''Building index_type'', Hnsw_Index ''l2'' 4,
      Hnsw_init_index 1000 100 8, Set_num_threads HnswlibIndex 1, Hnsw_add_items 1000,
      Logging_info ''Indexing time'']\<rparr>)"
  using main_hnsw_reordering_fails_after_first_build
    [of "env_example 100" "(1000, 4)" "[0]" "[[7]]" 100 "[200]" "[50]" 16 "[32]" "''l2''" False None
        "[''gorder'']" None 1 1 world_empty]
  by (simp add: emit_def world_empty_def)

text \<open>
  The claim as stated, that the error comes before any build call and leaves the state
  unchanged, fails: the hnsw index has been built when the error is raised.
\<close>

theorem main_hnsw_reordering_builds_before_error_counterexample:
  "fst (main (env_example 100) (1000, 4) [0] [[7]] [100] [50] [16] ''l2'' ''hnsw'' False None
          (Some [''gorder'']) None 1 1 world_empty)
     = Inl (ValueError ''Reordering only applies to the FlatNav index.'')
   \<and> Hnsw_add_items 1000 \<in> set (trace (snd (main (env_example 100) (1000, 4) [0] [[7]] [100] [50] [16]
          ''l2'' ''hnsw'' False None (Some [''gorder'']) None 1 1 world_empty)))
   \<and> snd (main (env_example 100) (1000, 4) [0] [[7]] [100] [50] [16] ''l2'' ''hnsw'' False None
          (Some [''gorder'']) None 1 1 world_empty) \<noteq> world_empty"
  by (simp add: main_def train_index_def create_and_train_hnsw_index_def is_flatnav_index_def
      emit_def world_empty_def)

subsection \<open>Scoring\<close>

lemma search_flatnav_world:
  "snd (search_flatnav env queries ef_search k latencies top_k_indices w) =
   emit (map (\<lambda>query. Flatnav_search_single query ef_search k 100) queries) w"
proof (induction queries arbitrary: latencies top_k_indices w)
  case Nil
  show ?case by (simp add: emit_def)
next
  case (Cons query rest)
  show ?case by (simp add: Let_def Cons.IH emit_emit split: prod.splits)
qed

lemma search_hnsw_world:
  "snd (search_hnsw env queries k latencies top_k_indices w) =
   emit (map (\<lambda>query. Hnsw_knn_query query k) queries) w"
proof (induction queries arbitrary: latencies top_k_indices w)
  case Nil
  show ?case by (simp add: emit_def)
next
  case (Cons query rest)
  show ?case by (simp add: Let_def Cons.IH emit_emit split: prod.splits)
qed

lemma compute_metrics_world:
  "snd (compute_metrics env requested_metrics index queries ground_truth ef_search k w) =
   (if is_flatnav_index index
    then emit (map (\<lambda>query. Flatnav_search_single query ef_search k 100) queries) w
    else emit (Hnsw_set_ef ef_search # map (\<lambda>query. Hnsw_knn_query query k) queries) w)"
proof -
  have "snd (compute_metrics env requested_metrics index queries ground_truth ef_search k w) =
        snd (compute_metrics_search env index queries ef_search k w)"
    by (simp add: compute_metrics_def split: prod.splits)
  then show ?thesis
    by (simp add: compute_metrics_search_def search_flatnav_world search_hnsw_world emit_emit)
qed

lemma compute_metrics_metrics_file:
  "compute_metrics env requested_metrics index queries ground_truth ef_search k w = (r, w1)
   \<Longrightarrow> metrics_file w1 = metrics_file w"
  using compute_metrics_world [of env requested_metrics index queries ground_truth ef_search k w]
  by (simp add: metrics_file_emit split: if_splits)

lemma compute_metrics_example:
  "compute_metrics (env_example 100) all_requested_metrics L2Index [0] [[7]] 50 100 w =
   (Inr [(''qps'', JNum 2), (''latency'', JNum 500), (''latency_p95'', JNum 500),
         (''latency_p99'', JNum 500), (''latency_p999'', JNum 500), (''recall'', JNum 1)],
    emit [Flatnav_search_single 0 50 100 100] w)"
  apply (simp add: compute_metrics_def compute_metrics_search_def is_flatnav_index_def env_example_def Let_def)
  apply (simp add: compute_metrics_score_def all_requested_metrics_def np_mean_def np_percentile_def Let_def)
  done

lemma index_factory_env_example: "index_factory (env_example k) distance_type = Inr L2Index"
  by (simp add: env_example_def)

text \<open>
  Claim C3 (the code departs from it). Asked for \<open>qps\<close> only, \<open>compute_metrics\<close>
  returns a record that holds \<open>recall\<close> as well: recall is computed whether or not it
  was requested.
\<close>

theorem compute_metrics_reports_unrequested_recall:
  "''recall'' \<notin> set [''qps'']
   \<and> fst (compute_metrics (env_example 1) [''qps''] L2Index [0] [[7]] 50 1 world_empty)
     = Inr [(''qps'', JNum 2), (''recall'', JNum 1)]"
  apply (simp add: compute_metrics_def compute_metrics_search_def is_flatnav_index_def env_example_def Let_def)
  apply (simp add: compute_metrics_score_def Let_def)
  done

text \<open>
  Claim C10. The \<open>num_initializations\<close> value given to \<open>main\<close> has no effect: \<open>main\<close>
  does the same for any two values; on a FlatNav index \<open>compute_metrics\<close> issues one
  \<open>search_single\<close> per query, each with \<open>num_initializations = 100\<close>, and nothing else;
  and once \<open>run_experiment\<close> has checked the value against the hnsw index type, the
  whole run is the same for any two values.
\<close>

theorem num_initializations_is_never_forwarded:
  "main env train_dataset queries gtruth ef_cons_params ef_search_params num_node_links
     distance_type index_type use_hnsw_base_layer hnsw_base_layer_filename reordering_strategies
     num_initializations num_build_threads num_search_threads w
   = main env train_dataset queries gtruth ef_cons_params ef_search_params num_node_links
     distance_type index_type use_hnsw_base_layer hnsw_base_layer_filename reordering_strategies
     num_initializations' num_build_threads num_search_threads w
   \<and> (is_flatnav_index index \<longrightarrow>
        snd (compute_metrics env requested_metrics index queries gtruth ef_search k w)
        = emit (map (\<lambda>query. Flatnav_search_single query ef_search k 100) queries) w)
   \<and> (str_lower (arg_index_type a) \<noteq> ''hnsw'' \<longrightarrow>
        run_experiment env (a\<lparr>arg_num_initializations := num_initializations\<rparr>) loaded w
        = run_experiment env (a\<lparr>arg_num_initializations := num_initializations'\<rparr>) loaded w)"
  by (simp add: main_def compute_metrics_world run_experiment_def split: sum.splits prod.splits)

theorem num_initializations_is_never_forwarded_witness:
  "snd (compute_metrics (env_example 1) [''qps''] L2Index [3, 4] [[7], [7]] 50 1 world_empty)
     = world_empty\<lparr>trace := [Flatnav_search_single 3 50 1 100, Flatnav_search_single 4 50 1 100]\<rparr>
   \<and> run_experiment (env_example 100)
        \<lparr>arg_index_type = ''FlatNav'', arg_use_hnsw_base_layer = False,
         arg_hnsw_base_layer_filename = None, arg_num_node_links = [16],
         arg_ef_construction = [100], arg_ef_search = [50],
         arg_num_initializations = Some [5], arg_metric = ''L2'',
         arg_reordering_strategies = None, arg_num_build_threads = 1,
         arg_num_search_threads = 1\<rparr> (Inr ((1000, 4), [0], [[7]])) world_empty
     = run_experiment (env_example 100)
        \<lparr>arg_index_type = ''FlatNav'', arg_use_hnsw_base_layer = False,
         arg_hnsw_base_layer_filename = None, arg_num_node_links = [16],
         arg_ef_construction = [100], arg_ef_search = [50],
         arg_num_initializations = None, arg_metric = ''L2'',
         arg_reordering_strategies = None, arg_num_build_threads = 1,
         arg_num_search_threads = 1\<rparr> (Inr ((1000, 4), [0], [[7]])) world_empty"
  using num_initializations_is_never_forwarded
    [where index = L2Index and env = "env_example 1" and requested_metrics = "[''qps'']"
       and queries = "[3, 4]" and gtruth = "[[7], [7]]" and ef_search = 50 and k = 1
       and w = world_empty]
    num_initializations_is_never_forwarded
    [where a = "\<lparr>arg_index_type = ''FlatNav'', arg_use_hnsw_base_layer = False,
         arg_hnsw_base_layer_filename = None, arg_num_node_links = [16],
         arg_ef_construction = [100], arg_ef_search = [50],
         arg_num_initializations = None, arg_metric = ''L2'',
         arg_reordering_strategies = None, arg_num_build_threads = 1,
         arg_num_search_threads = 1\<rparr>" and env = "env_example 100"
       and num_initializations = "Some [5]" and num_initializations' = None
       and loaded = "Inr ((1000, 4), [0], [[7]])" and w = world_empty]
  by (simp add: is_flatnav_index_def emit_def world_empty_def str_lower_def lower_char_def)

subsection \<open>The result store\<close>

lemma main_persist_invalid:
  "metrics_file w = Invalid_json \<Longrightarrow>
   main_persist index_type metrics w =
   (Inr (), (emit [Logging_error ''Error reading metrics_file''] w)
              \<lparr>metrics_file := Valid_json (JObj [(index_type, JArr [JObj metrics])])\<rparr>)"
  by (simp add: main_persist_def main_read_store_def)

text \<open>Once the store holds the records of one index type, each further step appends.\<close>

lemma main_persist_appends:
  assumes "metrics_file w = Valid_json (JObj [(index_type, JArr records)])"
  shows "main_persist index_type metrics w =
           (Inr (), w\<lparr>metrics_file := Valid_json (JObj [(index_type, JArr (records @ [JObj metrics]))])\<rparr>)"
  using assms by (simp add: main_persist_def main_read_store_def)

text \<open>
  Claim C9, as amended. When the metrics file holds text on which \<open>json.load\<close> raises
  \<open>json.JSONDecodeError\<close>, the persistence step logs the error, starts from the empty
  store and writes a store that holds exactly the new record under the index type; the
  step returns normally, and the sweep goes on with the remaining search widths. A store
  whose reading raises another exception (bytes that do not decode, nesting beyond the
  recursion limit) is not recovered: the exception leaves the step, nothing is logged
  and the file stays as it was.
\<close>

theorem json_decode_error_is_logged_and_store_replaced:
  "(metrics_file w = Invalid_json \<longrightarrow>
      main_persist index_type metrics w =
        (Inr (), (emit [Logging_error ''Error reading metrics_file''] w)
                   \<lparr>metrics_file := Valid_json (JObj [(index_type, JArr [JObj metrics])])\<rparr>)
      \<and> (compute_metrics env all_requested_metrics index queries gtruth ef_search 100 w = (Inr m, w1) \<longrightarrow>
           main_ef_search_loop env (ef_search # rest) index queries gtruth distance_type index_type metrics w =
           main_ef_search_loop env rest index queries gtruth distance_type index_type
             (AList.update ''distance_type'' (JStr distance_type) m)
             ((emit [Logging_info ''Recall@100'', Logging_error ''Error reading metrics_file''] w1)
                \<lparr>metrics_file := Valid_json (JObj [(index_type,
                    JArr [JObj (AList.update ''distance_type'' (JStr distance_type) m)])])\<rparr>)))
   \<and> (metrics_file w = Undecodable_bytes \<longrightarrow>
        main_persist index_type metrics w = (Inl UnicodeDecodeError, w))
   \<and> (metrics_file w = Nested_too_deep \<longrightarrow>
        main_persist index_type metrics w = (Inl RecursionError, w))"
proof (intro conjI impI)
  assume "metrics_file w = Invalid_json"
  then show "main_persist index_type metrics w =
           (Inr (), (emit [Logging_error ''Error reading metrics_file''] w)
                      \<lparr>metrics_file := Valid_json (JObj [(index_type, JArr [JObj metrics])])\<rparr>)"
    by (rule main_persist_invalid)
next
  assume inv: "metrics_file w = Invalid_json"
    and cm: "compute_metrics env all_requested_metrics index queries gtruth ef_search 100 w = (Inr m, w1)"
  then have "metrics_file w1 = Invalid_json"
    using compute_metrics_metrics_file by metis
  then have "metrics_file (emit [Logging_info ''Recall@100''] w1) = Invalid_json"
    by (simp add: metrics_file_emit)
  then have "main_persist index_type (AList.update ''distance_type'' (JStr distance_type) m)
               (emit [Logging_info ''Recall@100''] w1) =
             (Inr (), (emit [Logging_error ''Error reading metrics_file''] (emit [Logging_info ''Recall@100''] w1))
                \<lparr>metrics_file := Valid_json (JObj [(index_type,
                     JArr [JObj (AList.update ''distance_type'' (JStr distance_type) m)])])\<rparr>)"
    by (rule main_persist_invalid)
  with cm show "main_ef_search_loop env (ef_search # rest) index queries gtruth distance_type index_type metrics w =
            main_ef_search_loop env rest index queries gtruth distance_type index_type
              (AList.update ''distance_type'' (JStr distance_type) m)
              ((emit [Logging_info ''Recall@100'', Logging_error ''Error reading metrics_file''] w1)
                 \<lparr>metrics_file := Valid_json (JObj [(index_type,
                     JArr [JObj (AList.update ''distance_type'' (JStr distance_type) m)])])\<rparr>)"
    by (simp add: Let_def emit_emit)
next
  assume "metrics_file w = Undecodable_bytes"
  then show "main_persist index_type metrics w = (Inl UnicodeDecodeError, w)"
    by (simp add: main_persist_def main_read_store_def)
next
  assume "metrics_file w = Nested_too_deep"
  then show "main_persist index_type metrics w = (Inl RecursionError, w)"
    by (simp add: main_persist_def main_read_store_def)
qed

theorem json_decode_error_is_logged_and_store_replaced_witness:
  "main_ef_search_loop (env_example 100) [50] L2Index [0] [[7]] ''l2'' ''flatnav'' []
     (world_empty\<lparr>metrics_file := Invalid_json\<rparr>) =
   (Inr [(''qps'', JNum 2), (''latency'', JNum 500), (''latency_p95'', JNum 500),
         (''latency_p99'', JNum 500), (''latency_p999'', JNum 500), (''recall'', JNum 1),
         (''distance_type'', JStr ''l2'')],
    \<lparr>trace = [Flatnav_search_single 0 50 100 100, Logging_info ''Recall@100'',
               Logging_error ''Error reading metrics_file''],
     mtx_files = {},
     metrics_file = Valid_json (JObj [(''flatnav'', JArr [JObj
        [(''qps'', JNum 2), (''latency'', JNum 500), (''latency_p95'', JNum 500),
         (''latency_p99'', JNum 500), (''latency_p999'', JNum 500), (''recall'', JNum 1),
         (''distance_type'', JStr ''l2'')]])])\<rparr>)
   \<and> main_persist ''flatnav'' [(''recall'', JNum 1)] (world_empty\<lparr>metrics_file := Undecodable_bytes\<rparr>)
       = (Inl UnicodeDecodeError, world_empty\<lparr>metrics_file := Undecodable_bytes\<rparr>)
   \<and> main_persist ''flatnav'' [(''recall'', JNum 1)] (world_empty\<lparr>metrics_file := Nested_too_deep\<rparr>)
       = (Inl RecursionError, world_empty\<lparr>metrics_file := Nested_too_deep\<rparr>)"
  using json_decode_error_is_logged_and_store_replaced
    [where w = "world_empty\<lparr>metrics_file := Invalid_json\<rparr>" and index_type = "''flatnav''"
       and metrics = "[]" and env = "env_example 100" and index = L2Index and queries = "[0]"
       and gtruth = "[[7]]" and ef_search = 50 and rest = "[]" and distance_type = "''l2''"
       and m = "[(''qps'', JNum 2), (''latency'', JNum 500), (''latency_p95'', JNum 500),
          (''latency_p99'', JNum 500), (''latency_p999'', JNum 500), (''recall'', JNum 1)]"
       and ?w1.0 = "emit [Flatnav_search_single 0 50 100 100] (world_empty\<lparr>metrics_file := Invalid_json\<rparr>)"]
    json_decode_error_is_logged_and_store_replaced
    [where w = "world_empty\<lparr>metrics_file := Undecodable_bytes\<rparr>" and index_type = "''flatnav''"
       and metrics = "[(''recall'', JNum 1)]"]
    json_decode_error_is_logged_and_store_replaced
    [where w = "world_empty\<lparr>metrics_file := Nested_too_deep\<rparr>" and index_type = "''flatnav''"
       and metrics = "[(''recall'', JNum 1)]"]
    compute_metrics_example [of "world_empty\<lparr>metrics_file := Invalid_json\<rparr>"]
  by (simp add: world_empty_def emit_def)

text \<open>
  The claim as stated fails: a store of bytes that do not decode is a syntactically
  invalid store, and on it the sweep stops with the UnicodeDecodeError of the read, with
  no error logged and the file not rewritten.
\<close>

theorem undecodable_store_aborts_the_sweep_counterexample:
  "main_ef_search_loop (env_example 100) [50] L2Index [0] [[7]] ''l2'' ''flatnav'' []
     (world_empty\<lparr>metrics_file := Undecodable_bytes\<rparr>) =
   (Inl UnicodeDecodeError,
    \<lparr>trace = [Flatnav_search_single 0 50 100 100, Logging_info ''Recall@100''],
     mtx_files = {},
     metrics_file = Undecodable_bytes\<rparr>)"
  by (simp add: compute_metrics_example main_persist_def main_read_store_def Let_def emit_def world_empty_def)

text \<open>No record that \<open>compute_metrics\<close> returns has an entry for a sweep parameter.\<close>

lemma compute_metrics_score_no_parameters:
  assumes "compute_metrics_score requested_metrics n ground_truth k latencies top_k_indices = Inr m"
  shows "map_of m ''node_links'' = None \<and> map_of m ''ef_construction'' = None
       \<and> map_of m ''ef_search'' = None"
  using assms
  by (auto simp add: compute_metrics_score_def Let_def update_conv' split: if_splits sum.splits)

text \<open>
  Claim C2 (the code departs from it). The record that a sweep of one combination writes
  holds the six metrics and \<open>distance_type\<close>, under the key of the index type: the
  \<open>node_links\<close> and \<open>ef_construction\<close> entries set before the build are lost when
  \<open>metrics\<close> is rebound to the result of \<open>compute_metrics\<close>, and no \<open>ef_search\<close>
  entry is ever set.
\<close>

theorem main_record_lacks_sweep_parameters:
  "metrics_file (snd (main (env_example 100) (1000, 4) [0] [[7]] [100] [50] [16] ''l2'' ''flatnav''
      False None None None 1 1 world_empty))
   = Valid_json (JObj [(''flatnav'', JArr [JObj
        [(''qps'', JNum 2), (''latency'', JNum 500), (''latency_p95'', JNum 500),
         (''latency_p99'', JNum 500), (''latency_p999'', JNum 500), (''recall'', JNum 1),
         (''distance_type'', JStr ''l2'')]])])"
  by (simp add: main_def train_index_def Let_def index_factory_env_example compute_metrics_example
      main_persist_def main_read_store_def emit_def world_empty_def)

subsection \<open>Recall and throughput\<close>

lemma search_flatnav_lengths:
  "search_flatnav env queries ef_search k latencies top_k_indices w = ((ls, ts), w1) \<Longrightarrow>
   length ls = length latencies + length queries \<and> length ts = length top_k_indices + length queries"
proof (induction queries arbitrary: latencies top_k_indices w)
  case Nil
  then show ?case by simp
next
  case (Cons query rest)
  then show ?case by (fastforce simp add: Let_def split: prod.splits)
qed

lemma search_hnsw_lengths:
  "search_hnsw env queries k latencies top_k_indices w = ((ls, ts), w1) \<Longrightarrow>
   length ls = length latencies + length queries \<and> length ts = length top_k_indices + length queries"
proof (induction queries arbitrary: latencies top_k_indices w)
  case Nil
  then show ?case by simp
next
  case (Cons query rest)
  then show ?case by (fastforce simp add: Let_def split: prod.splits)
qed

lemma compute_metrics_search_lengths:
  assumes "fst (compute_metrics_search env index queries ef_search k w) = (latencies, top_k_indices)"
  shows "length latencies = length queries \<and> length top_k_indices = length queries"
proof -
  obtain w1 where "compute_metrics_search env index queries ef_search k w = ((latencies, top_k_indices), w1)"
    using assms by (cases "compute_metrics_search env index queries ef_search k w") auto
  then show ?thesis
    using search_flatnav_lengths [of env queries ef_search k "[]" "[]" w latencies top_k_indices w1]
      search_hnsw_lengths [of env queries k "[]" "[]" "emit [Hnsw_set_ef ef_search] w" latencies top_k_indices w1]
    by (simp add: compute_metrics_search_def split: if_splits)
qed

lemma query_recall_fraction_bounds:
  "0 \<le> query_recall_fraction returned truth \<and> query_recall_fraction returned truth \<le> 1"
proof -
  have "length (filter (\<lambda>i. i \<in> set truth) returned) \<le> length returned"
    by (rule length_filter_le)
  then have "(of_nat (length (filter (\<lambda>i. i \<in> set truth) returned)) :: rat) \<le> of_nat (length returned)"
    by (simp only: of_nat_le_iff)
  then show ?thesis
    by (simp add: query_recall_fraction_def divide_le_eq_1)
qed

lemma query_recall_fraction_full:
  assumes "returned \<noteq> []" and "set returned \<subseteq> set truth"
  shows "query_recall_fraction returned truth = 1"
proof -
  have "filter (\<lambda>i. i \<in> set truth) returned = returned"
    using assms(2) by (auto simp add: filter_id_conv)
  then show ?thesis
    using assms(1) by (simp add: query_recall_fraction_def)
qed

lemma sum_list_unit_bounds:
  fixes f :: "'a \<Rightarrow> rat"
  assumes "\<And>x. x \<in> set xs \<Longrightarrow> 0 \<le> f x \<and> f x \<le> 1"
  shows "0 \<le> sum_list (map f xs) \<and> sum_list (map f xs) \<le> of_nat (length xs)"
  using assms
proof (induction xs)
  case Nil
  then show ?case by simp
next
  case (Cons x xs)
  have "0 \<le> f x \<and> f x \<le> 1" using Cons.prems by simp
  moreover have "0 \<le> sum_list (map f xs) \<and> sum_list (map f xs) \<le> of_nat (length xs)"
    using Cons by simp
  ultimately show ?case by simp
qed

lemma mean_query_recall_bounds:
  "0 \<le> mean_query_recall top_k ground_truth \<and> mean_query_recall top_k ground_truth \<le> 1"
proof -
  let ?f = "\<lambda>(returned, truth). query_recall_fraction returned truth"
  let ?s = "sum_list (map ?f (zip top_k ground_truth))"
  have b: "0 \<le> ?s \<and> ?s \<le> of_nat (length (zip top_k ground_truth))"
    by (rule sum_list_unit_bounds) (auto simp add: query_recall_fraction_bounds)
  have "(of_nat (length (zip top_k ground_truth)) :: rat) \<le> of_nat (length top_k)"
    by (simp only: of_nat_le_iff) simp
  with b have "0 \<le> ?s \<and> ?s \<le> of_nat (length top_k)"
    by linarith
  then show ?thesis
    by (simp add: mean_query_recall_def divide_le_eq_1 zero_le_divide_iff)
qed

lemma recall_loop_sum:
  assumes "recall_loop rows (map set ground_truth) idx k acc = Inr r"
    and "list_all (\<lambda>indices. int (length indices) = k) rows"
  shows "r = acc + sum_list (map (\<lambda>(returned, truth). query_recall_fraction returned truth)
                              (zip rows (drop idx ground_truth)))
         \<and> (rows \<noteq> [] \<longrightarrow> k \<noteq> 0 \<and> idx + length rows \<le> length ground_truth)"
  using assms
proof (induction rows arbitrary: idx acc)
  case Nil
  then show ?case by simp
next
  case (Cons row rest)
  from Cons.prems(2) have len: "int (length row) = k" and rest_len: "list_all (\<lambda>indices. int (length indices) = k) rest"
    by simp_all
  from Cons.prems(1) have k0: "k \<noteq> 0"
    by (auto split: if_splits)
  with len have row_ne: "row \<noteq> []" by auto
  with Cons.prems(1) have idx: "idx < length ground_truth"
    by (auto split: if_splits)
  have step: "recall_loop rest (map set ground_truth) (idx + 1) k
      (acc + of_nat (length (filter (\<lambda>neighbor. neighbor \<in> set (ground_truth ! idx)) row)) / of_int k) = Inr r"
    using Cons.prems(1) k0 row_ne idx by (simp add: Let_def)
  have frac: "of_nat (length (filter (\<lambda>neighbor. neighbor \<in> set (ground_truth ! idx)) row)) / of_int k
      = query_recall_fraction row (ground_truth ! idx)"
    using len by (auto simp add: query_recall_fraction_def)
  from Cons.IH [OF step rest_len]
  have ih: "r = acc + query_recall_fraction row (ground_truth ! idx)
              + sum_list (map (\<lambda>(returned, truth). query_recall_fraction returned truth)
                   (zip rest (drop (idx + 1) ground_truth)))"
    and ih2: "rest \<noteq> [] \<longrightarrow> idx + 1 + length rest \<le> length ground_truth"
    by (simp_all add: frac)
  have d: "drop idx ground_truth = ground_truth ! idx # drop (idx + 1) ground_truth"
    using idx by (simp add: Cons_nth_drop_Suc)
  show ?case
    using ih ih2 k0 idx by (cases "rest = []") (simp_all add: d)
qed

lemma compute_metrics_score_Inr:
  assumes "compute_metrics_score requested_metrics n ground_truth k latencies top_k_indices = Inr m"
  shows "list_all (\<lambda>indices. int (length indices) = k) top_k_indices"
    and "top_k_indices \<noteq> []"
    and "''qps'' \<in> set requested_metrics \<Longrightarrow> sum_list latencies \<noteq> 0"
    and "\<exists>mean_recall. recall_loop top_k_indices (map set ground_truth) 0 k 0 = Inr mean_recall
           \<and> map_of m ''recall'' = Some (JNum (mean_recall / of_nat n))"
    and "''qps'' \<in> set requested_metrics \<Longrightarrow>
           map_of m ''qps'' = Some (JNum (of_nat n / sum_list latencies))"
    and "''latency'' \<in> set requested_metrics \<Longrightarrow>
           map_of m ''latency'' = Some (JNum (np_mean latencies * 1000))"
proof -
  from assms show a: "list_all (\<lambda>indices. int (length indices) = k) top_k_indices"
    by (simp add: compute_metrics_score_def split: if_splits)
  from assms show b: "top_k_indices \<noteq> []"
    by (auto simp add: compute_metrics_score_def split: if_splits)
  from assms a b have c: "\<not> (''qps'' \<in> set requested_metrics \<and> sum_list latencies = 0)"
    by (auto simp add: compute_metrics_score_def Let_def split: if_splits)
  then show "''qps'' \<in> set requested_metrics \<Longrightarrow> sum_list latencies \<noteq> 0"
    by simp
  obtain mean_recall where r: "recall_loop top_k_indices (map set ground_truth) 0 k 0 = Inr mean_recall"
    using assms a b c
    by (cases "recall_loop top_k_indices (map set ground_truth) 0 k 0")
       (simp_all add: compute_metrics_score_def Let_def)
  show "\<exists>mean_recall. recall_loop top_k_indices (map set ground_truth) 0 k 0 = Inr mean_recall
           \<and> map_of m ''recall'' = Some (JNum (mean_recall / of_nat n))"
    using assms a b c r by (auto simp add: compute_metrics_score_def Let_def update_conv')
  show "map_of m ''qps'' = Some (JNum (of_nat n / sum_list latencies))"
    if "''qps'' \<in> set requested_metrics"
    using assms a b c r that by (auto simp add: compute_metrics_score_def Let_def update_conv')
  show "map_of m ''latency'' = Some (JNum (np_mean latencies * 1000))"
    if "''latency'' \<in> set requested_metrics"
    using assms a b c r that by (auto simp add: compute_metrics_score_def Let_def update_conv')
qed

lemma compute_metrics_unfold:
  assumes "compute_metrics env requested_metrics index queries ground_truth ef_search k w = (Inr m, w1)"
    and "fst (compute_metrics_search env index queries ef_search k w) = (latencies, top_k_indices)"
  shows "compute_metrics_score requested_metrics (length queries) ground_truth k latencies top_k_indices = Inr m"
  using assms by (simp add: compute_metrics_def split: prod.splits)

lemma compute_metrics_search_example_two:
  "compute_metrics_search (env_example 1) L2Index [0, 1] 50 1 w =
   (([1 / 2, 1 / 2], [[7], [7]]),
    emit [Flatnav_search_single 0 50 1 100, Flatnav_search_single 1 50 1 100] w)"
  by (simp add: compute_metrics_search_def is_flatnav_index_def env_example_def Let_def emit_def)

lemma compute_metrics_example_two:
  "compute_metrics (env_example 1) all_requested_metrics L2Index [0, 1] [[7], [8]] 50 1 w =
   (Inr [(''qps'', JNum 2), (''latency'', JNum 500), (''latency_p95'', JNum 500),
         (''latency_p99'', JNum 500), (''latency_p999'', JNum 500), (''recall'', JNum (1 / 2))],
    emit [Flatnav_search_single 0 50 1 100, Flatnav_search_single 1 50 1 100] w)"
  apply (simp add: compute_metrics_def compute_metrics_search_def is_flatnav_index_def env_example_def Let_def)
  apply (simp add: compute_metrics_score_def all_requested_metrics_def np_mean_def np_percentile_def Let_def emit_emit)
  done

text \<open>When the scoring returns a record: at least one query, \<open>k\<close> ids for each, \<open>k\<close>
  not zero, a ground-truth row for each query and, where \<open>qps\<close> is requested, a total
  duration other than zero.\<close>

lemma recall_loop_succeeds:
  assumes "list_all (\<lambda>indices. int (length indices) = k) rows"
    and "k \<noteq> 0"
    and "idx + length rows \<le> length ground_truth_sets"
  shows "\<exists>r. recall_loop rows ground_truth_sets idx k acc = Inr r"
  using assms
proof (induction rows arbitrary: idx acc)
  case Nil
  show ?case by simp
next
  case (Cons row rest)
  then show ?case by (simp add: Let_def)
qed

lemma compute_metrics_score_succeeds:
  assumes "top_k_indices \<noteq> []"
    and "list_all (\<lambda>indices. int (length indices) = k) top_k_indices"
    and "k \<noteq> 0"
    and "length top_k_indices \<le> length ground_truth"
    and "''qps'' \<in> set requested_metrics \<longrightarrow> sum_list latencies \<noteq> 0"
  shows "\<exists>m. compute_metrics_score requested_metrics n ground_truth k latencies top_k_indices = Inr m"
proof -
  obtain r where "recall_loop top_k_indices (map set ground_truth) 0 k 0 = Inr r"
    using recall_loop_succeeds [of k top_k_indices 0 "map set ground_truth" 0] assms(2,3,4)
    by auto
  then show ?thesis
    using assms(1,2,5) by (simp add: compute_metrics_score_def Let_def)
qed

lemma recall_of_returned_record:
  assumes "compute_metrics env requested_metrics index queries ground_truth ef_search k w = (Inr m, w1)"
    and "fst (compute_metrics_search env index queries ef_search k w) = (latencies, top_k_indices)"
  shows "map_of m ''recall'' = Some (JNum (mean_query_recall top_k_indices ground_truth))
       \<and> length top_k_indices = length queries
       \<and> 0 \<le> mean_query_recall top_k_indices ground_truth
       \<and> mean_query_recall top_k_indices ground_truth \<le> 1
       \<and> (\<forall>i < length queries. set (top_k_indices ! i) = set (ground_truth ! i) \<longrightarrow>
            query_recall_fraction (top_k_indices ! i) (ground_truth ! i) = 1)"
proof -
  have score: "compute_metrics_score requested_metrics (length queries) ground_truth k latencies top_k_indices = Inr m"
    using assms by (rule compute_metrics_unfold)
  have len: "length top_k_indices = length queries"
    using compute_metrics_search_lengths [OF assms(2)] by simp
  have all_k: "list_all (\<lambda>indices. int (length indices) = k) top_k_indices"
    and ne: "top_k_indices \<noteq> []"
    using compute_metrics_score_Inr(1,2) [OF score] by simp_all
  obtain mean_recall where loop: "recall_loop top_k_indices (map set ground_truth) 0 k 0 = Inr mean_recall"
    and rec: "map_of m ''recall'' = Some (JNum (mean_recall / of_nat (length queries)))"
    using compute_metrics_score_Inr(4) [OF score] by blast
  have s: "mean_recall = sum_list (map (\<lambda>(returned, truth). query_recall_fraction returned truth)
              (zip top_k_indices ground_truth))"
    and k0: "k \<noteq> 0"
    using recall_loop_sum [OF loop all_k] ne by simp_all
  have "map_of m ''recall'' = Some (JNum (mean_query_recall top_k_indices ground_truth))"
    using rec s len by (simp add: mean_query_recall_def)
  moreover have "\<forall>i < length queries. set (top_k_indices ! i) = set (ground_truth ! i) \<longrightarrow>
            query_recall_fraction (top_k_indices ! i) (ground_truth ! i) = 1"
  proof (intro allI impI)
    fix i assume i: "i < length queries" and eq: "set (top_k_indices ! i) = set (ground_truth ! i)"
    have "int (length (top_k_indices ! i)) = k"
      using all_k i len by (simp add: list_all_length)
    then have "top_k_indices ! i \<noteq> []" using k0 by auto
    then show "query_recall_fraction (top_k_indices ! i) (ground_truth ! i) = 1"
      using eq by (intro query_recall_fraction_full) simp_all
  qed
  ultimately show ?thesis
    using len mean_query_recall_bounds [of top_k_indices ground_truth] by simp
qed

lemma qps_of_returned_record:
  assumes "compute_metrics env requested_metrics index queries ground_truth ef_search k w = (Inr m, w1)"
    and "fst (compute_metrics_search env index queries ef_search k w) = (latencies, top_k_indices)"
    and "''qps'' \<in> set requested_metrics"
  shows "length latencies = length queries \<and> queries \<noteq> []
       \<and> map_of m ''qps'' = Some (JNum (of_nat (length queries) / sum_list latencies))
       \<and> (''latency'' \<in> set requested_metrics \<longrightarrow>
            (\<exists>latency. map_of m ''latency'' = Some (JNum latency)
               \<and> latency / 1000 = sum_list latencies / of_nat (length queries)
               \<and> (of_nat (length queries) / sum_list latencies) * (latency / 1000)
                    * of_nat (length queries) = of_nat (length queries)))"
proof -
  have score: "compute_metrics_score requested_metrics (length queries) ground_truth k latencies top_k_indices = Inr m"
    using assms(1,2) by (rule compute_metrics_unfold)
  have len: "length latencies = length queries" "length top_k_indices = length queries"
    using compute_metrics_search_lengths [OF assms(2)] by simp_all
  have ne: "queries \<noteq> []"
    using compute_metrics_score_Inr(2) [OF score] len by auto
  have s0: "sum_list latencies \<noteq> 0"
    using compute_metrics_score_Inr(3) [OF score assms(3)] .
  have qps: "map_of m ''qps'' = Some (JNum (of_nat (length queries) / sum_list latencies))"
    using compute_metrics_score_Inr(5) [OF score assms(3)] .
  have lat: "''latency'' \<in> set requested_metrics \<longrightarrow>
            (\<exists>latency. map_of m ''latency'' = Some (JNum latency)
               \<and> latency / 1000 = sum_list latencies / of_nat (length queries)
               \<and> (of_nat (length queries) / sum_list latencies) * (latency / 1000)
                    * of_nat (length queries) = of_nat (length queries))"
  proof
    assume "''latency'' \<in> set requested_metrics"
    then have "map_of m ''latency'' = Some (JNum (np_mean latencies * 1000))"
      using compute_metrics_score_Inr(6) [OF score] by simp
    moreover have "np_mean latencies * 1000 / 1000 = sum_list latencies / of_nat (length queries)"
      by (simp add: np_mean_def len)
    moreover have "(of_nat (length queries) / sum_list latencies)
        * (sum_list latencies / of_nat (length queries)) * (of_nat (length queries) :: rat)
        = of_nat (length queries)"
      using s0 ne by simp
    ultimately show "\<exists>latency. map_of m ''latency'' = Some (JNum latency)
               \<and> latency / 1000 = sum_list latencies / of_nat (length queries)
               \<and> (of_nat (length queries) / sum_list latencies) * (latency / 1000)
                    * of_nat (length queries) = of_nat (length queries)"
      by (metis (no_types))
  qed
  show ?thesis using len ne qps lat by simp
qed

lemma compute_metrics_search_world:
  "snd (compute_metrics_search env index queries ef_search k w) =
   (if is_flatnav_index index
    then emit (map (\<lambda>query. Flatnav_search_single query ef_search k 100) queries) w
    else emit (Hnsw_set_ef ef_search # map (\<lambda>query. Hnsw_knn_query query k) queries) w)"
  by (simp add: compute_metrics_search_def search_flatnav_world search_hnsw_world emit_emit)

lemma compute_metrics_search_example_two_fst:
  "fst (compute_metrics_search (env_example 1) L2Index [0, 1] 50 1 world_empty) =
   ([1 / 2, 1 / 2], [[7], [7]])"
  by (simp only: compute_metrics_search_example_two fst_conv)

lemma compute_metrics_returns:
  assumes "fst (compute_metrics_search env index queries ef_search k w) = (latencies, top_k_indices)"
    and "queries \<noteq> []"
    and "list_all (\<lambda>indices. int (length indices) = k) top_k_indices"
    and "k \<noteq> 0"
    and "length queries \<le> length ground_truth"
    and "''qps'' \<in> set requested_metrics \<longrightarrow> sum_list latencies \<noteq> 0"
  shows "\<exists>m. compute_metrics env requested_metrics index queries ground_truth ef_search k w
               = (Inr m, snd (compute_metrics_search env index queries ef_search k w))"
proof -
  have len: "length top_k_indices = length queries"
    using compute_metrics_search_lengths [OF assms(1)] by simp
  then have "top_k_indices \<noteq> []" "length top_k_indices \<le> length ground_truth"
    using assms(2,5) by auto
  then obtain m where
    "compute_metrics_score requested_metrics (length queries) ground_truth k latencies top_k_indices = Inr m"
    using compute_metrics_score_succeeds
      [of top_k_indices k ground_truth requested_metrics latencies "length queries"] assms(3,4,6)
    by auto
  then have "compute_metrics env requested_metrics index queries ground_truth ef_search k w
               = (Inr m, snd (compute_metrics_search env index queries ef_search k w))"
    using assms(1)
    by (cases "compute_metrics_search env index queries ef_search k w")
       (simp add: compute_metrics_def)
  then show ?thesis by blast
qed

text \<open>
  Claim C6. For every query set and ground truth with at least one query, \<open>k\<close> (not
  zero) ids returned for each query and a ground-truth row for each query (and, where
  \<open>qps\<close> is requested, a total duration other than zero), \<open>compute_metrics\<close> returns a
  record whose \<open>recall\<close> is the mean over the queries of the per-query fraction of
  returned ids that are members of the query's ground-truth set (membership in a set: the
  order within the top-k plays no part); this recall lies between 0 and 1; and a query
  whose returned ids are exactly its ground-truth ids has the per-query fraction 1.
\<close>

theorem recall_is_mean_of_per_query_fractions:
  assumes "fst (compute_metrics_search env index queries ef_search k w) = (latencies, top_k_indices)"
    and "queries \<noteq> []"
    and "list_all (\<lambda>indices. int (length indices) = k) top_k_indices"
    and "k \<noteq> 0"
    and "length queries \<le> length ground_truth"
    and "''qps'' \<in> set requested_metrics \<longrightarrow> sum_list latencies \<noteq> 0"
  shows "\<exists>m. compute_metrics env requested_metrics index queries ground_truth ef_search k w
               = (Inr m, snd (compute_metrics_search env index queries ef_search k w))
           \<and> map_of m ''recall'' = Some (JNum (mean_query_recall top_k_indices ground_truth))
           \<and> length top_k_indices = length queries
           \<and> 0 \<le> mean_query_recall top_k_indices ground_truth
           \<and> mean_query_recall top_k_indices ground_truth \<le> 1
           \<and> (\<forall>i < length queries. set (top_k_indices ! i) = set (ground_truth ! i) \<longrightarrow>
                query_recall_fraction (top_k_indices ! i) (ground_truth ! i) = 1)"
proof -
  obtain m where cm: "compute_metrics env requested_metrics index queries ground_truth ef_search k w
               = (Inr m, snd (compute_metrics_search env index queries ef_search k w))"
    using compute_metrics_returns [OF assms] by blast
  show ?thesis
    using cm recall_of_returned_record [OF cm assms(1)] by blast
qed

theorem recall_is_mean_of_per_query_fractions_witness:
  "\<exists>m. compute_metrics (env_example 1) all_requested_metrics L2Index [0, 1] [[7], [8]] 50 1 world_empty
          = (Inr m, emit [Flatnav_search_single 0 50 1 100, Flatnav_search_single 1 50 1 100] world_empty)
      \<and> map_of m ''recall'' = Some (JNum (1 / 2))
      \<and> query_recall_fraction ([[7], [7]] ! 0) ([[7], [8]] ! 0) = 1"
  using recall_is_mean_of_per_query_fractions
    [OF compute_metrics_search_example_two_fst,
     where ground_truth = "[[7], [8]]" and requested_metrics = all_requested_metrics]
  by (auto simp add: compute_metrics_search_world is_flatnav_index_def mean_query_recall_def
      query_recall_fraction_def)

text \<open>
  Claim C7, as amended. For every scoring call with \<open>qps\<close> requested, at least one
  query and per-query durations whose sum is not zero (each query returning \<open>k\<close> ids,
  \<open>k\<close> not zero, and having a ground-truth row), \<open>compute_metrics\<close> returns a record
  with one duration per query in which \<open>qps\<close> is the number of queries divided by the sum
  of the durations; if \<open>latency\<close> is requested too, the mean latency in seconds (the
  reported milliseconds over 1000) is the sum over the count, so that \<open>qps\<close> times mean
  latency times the number of queries is the number of queries. Floats are idealised as
  rationals, so the equality is exact.
\<close>

theorem qps_is_count_over_total_time:
  assumes "fst (compute_metrics_search env index queries ef_search k w) = (latencies, top_k_indices)"
    and "queries \<noteq> []"
    and "list_all (\<lambda>indices. int (length indices) = k) top_k_indices"
    and "k \<noteq> 0"
    and "length queries \<le> length ground_truth"
    and "''qps'' \<in> set requested_metrics"
    and "sum_list latencies \<noteq> 0"
  shows "\<exists>m. compute_metrics env requested_metrics index queries ground_truth ef_search k w
               = (Inr m, snd (compute_metrics_search env index queries ef_search k w))
           \<and> length latencies = length queries
           \<and> map_of m ''qps'' = Some (JNum (of_nat (length queries) / sum_list latencies))
           \<and> (''latency'' \<in> set requested_metrics \<longrightarrow>
                (\<exists>latency. map_of m ''latency'' = Some (JNum latency)
                   \<and> latency / 1000 = sum_list latencies / of_nat (length queries)
                   \<and> (of_nat (length queries) / sum_list latencies) * (latency / 1000)
                        * of_nat (length queries) = of_nat (length queries)))"
proof -
  have "''qps'' \<in> set requested_metrics \<longrightarrow> sum_list latencies \<noteq> 0"
    using assms(7) by simp
  then obtain m where cm: "compute_metrics env requested_metrics index queries ground_truth ef_search k w
               = (Inr m, snd (compute_metrics_search env index queries ef_search k w))"
    using compute_metrics_returns [OF assms(1,2,3,4,5)] by blast
  show ?thesis
    using cm qps_of_returned_record [OF cm assms(1) assms(6)] by blast
qed

theorem qps_is_count_over_total_time_witness:
  "\<exists>m. compute_metrics (env_example 1) all_requested_metrics L2Index [0, 1] [[7], [8]] 50 1 world_empty
          = (Inr m, emit [Flatnav_search_single 0 50 1 100, Flatnav_search_single 1 50 1 100] world_empty)
      \<and> map_of m ''qps'' = Some (JNum 2)
      \<and> map_of m ''latency'' = Some (JNum 500)"
  using qps_is_count_over_total_time
    [OF compute_metrics_search_example_two_fst,
     where ground_truth = "[[7], [8]]" and requested_metrics = all_requested_metrics]
  by (auto simp add: compute_metrics_search_world is_flatnav_index_def all_requested_metrics_def)

text \<open>
  The claim as stated fails: the list of durations \<open>[0]\<close> is not empty, and on it the
  division raises ZeroDivisionError, so that no \<open>qps\<close> is reported.
\<close>

theorem zero_total_duration_reports_no_qps_counterexample:
  "fst (fst (compute_metrics_search (env_instant 1) L2Index [0] 50 1 world_empty)) = [0]
   \<and> fst (compute_metrics (env_instant 1) [''qps''] L2Index [0] [[7]] 50 1 world_empty)
       = Inl ZeroDivisionError"
  by (simp add: compute_metrics_def compute_metrics_search_def compute_metrics_score_def
      is_flatnav_index_def env_instant_def Let_def)

subsection \<open>Loading the ground truth\<close>

lemma le_u32_one: "le_u32 [1, 0, 0, 0] = 1"
  by (simp add: le_u32_def)

lemma header_size_file_example: "header_size file_example = 16"
  by (simp add: header_size_def file_example_def le_u32_one)

lemma dists_offset_small:
  assumes "8 + 8 * (unat num_queries * unat K) < 2 ^ 32"
  shows "dists_offset nep50 num_queries K = 8 + 4 * (unat num_queries * unat K)"
proof -
  define n where "n = unat num_queries * unat K"
  have b: "8 + 8 * n < 2 ^ 32"
    using assms by (simp only: n_def)
  have p: "n < 2 ^ 32" and p4: "n * 4 < 2 ^ 32" and p8: "8 + n * 4 < 2 ^ 32"
    using b by simp_all
  have qk: "unat (num_queries * K) = n"
    using p unat_mult_lem [of num_queries K] by (simp add: n_def)
  have "unat (num_queries * K) * unat (4 :: 32 word) < 2 ^ LENGTH(32)"
    using p4 qk by simp
  then have "unat (num_queries * K * 4) = unat (num_queries * K) * unat (4 :: 32 word)"
    by (rule unat_mult_lem [THEN iffD1])
  then have qk4: "unat (num_queries * K * 4) = n * 4"
    using qk by simp
  have "unat (8 :: 32 word) + unat (num_queries * K * 4) < 2 ^ LENGTH(32)"
    using p8 qk4 by simp
  then have "unat (8 + num_queries * K * 4) = unat (8 :: 32 word) + unat (num_queries * K * 4)"
    by (rule unat_add_lem [THEN iffD1])
  then have "unat (8 + num_queries * K * 4) = 8 + n * 4"
    using qk4 by simp
  then show ?thesis
    using qk by (simp add: dists_offset_def n_def)
qed

text \<open>
  Claim C4, as amended. \<open>load_ground_truth\<close> does not compare the file size with the
  header. For a header that declares less than 4 GiB: a file too short for its header
  fails to load, with the ValueError of the memory map (with an IndexError when the
  8-byte header itself is cut short); a file at least as long as the header declares,
  longer ones included, loads, and the two views are the \<open>num_queries * K\<close> blocks at
  offsets 8 and \<open>8 + num_queries * K * 4\<close>.
\<close>

theorem load_ground_truth_fails_only_on_short_file:
  "(length file < 8 \<longrightarrow> load_ground_truth nep50 file = Inl IndexError)
   \<and> (8 \<le> length file \<and> header_size file < 2 ^ 32 \<longrightarrow>
        (length file < header_size file \<longrightarrow>
           load_ground_truth nep50 file = Inl (ValueError ''mmap length is greater than file size''))
      \<and> (header_size file \<le> length file \<longrightarrow>
           load_ground_truth nep50 file =
             Inr (view_u32 file 8 (unat (le_u32 (take 4 file))) (unat (le_u32 (take 4 (drop 4 file)))),
                  view_u32 file
                    (8 + 4 * (unat (le_u32 (take 4 file)) * unat (le_u32 (take 4 (drop 4 file)))))
                    (unat (le_u32 (take 4 file))) (unat (le_u32 (take 4 (drop 4 file)))),
                  le_u32 (take 4 file), le_u32 (take 4 (drop 4 file)))))"
proof (intro conjI impI)
  assume "length file < 8"
  then show "load_ground_truth nep50 file = Inl IndexError"
    by (simp add: load_ground_truth_def fromfile_u32_def)
next
  assume h: "8 \<le> length file \<and> header_size file < 2 ^ 32" and short: "length file < header_size file"
  have off: "dists_offset nep50 (le_u32 (take 4 file)) (le_u32 (take 4 (drop 4 file)))
      = 8 + 4 * (unat (le_u32 (take 4 file)) * unat (le_u32 (take 4 (drop 4 file))))"
    using h by (intro dists_offset_small) (simp add: header_size_def)
  show "load_ground_truth nep50 file = Inl (ValueError ''mmap length is greater than file size'')"
    using h short off
    by (simp add: load_ground_truth_def fromfile_u32_def np_memmap_def header_size_def)
next
  assume h: "8 \<le> length file \<and> header_size file < 2 ^ 32" and long: "header_size file \<le> length file"
  have off: "dists_offset nep50 (le_u32 (take 4 file)) (le_u32 (take 4 (drop 4 file)))
      = 8 + 4 * (unat (le_u32 (take 4 file)) * unat (le_u32 (take 4 (drop 4 file))))"
    using h by (intro dists_offset_small) (simp add: header_size_def)
  show "load_ground_truth nep50 file =
             Inr (view_u32 file 8 (unat (le_u32 (take 4 file))) (unat (le_u32 (take 4 (drop 4 file)))),
                  view_u32 file
                    (8 + 4 * (unat (le_u32 (take 4 file)) * unat (le_u32 (take 4 (drop 4 file)))))
                    (unat (le_u32 (take 4 file))) (unat (le_u32 (take 4 (drop 4 file)))),
                  le_u32 (take 4 file), le_u32 (take 4 (drop 4 file)))"
    using h long off
    by (simp add: load_ground_truth_def fromfile_u32_def np_memmap_def header_size_def)
qed

theorem load_ground_truth_fails_only_on_short_file_witness:
  "load_ground_truth True file_example = Inr ([[5]], [[1065353216]], 1, 1)
   \<and> load_ground_truth False (take 15 file_example)
       = Inl (ValueError ''mmap length is greater than file size'')
   \<and> load_ground_truth False (take 7 file_example) = Inl IndexError"
  using load_ground_truth_fails_only_on_short_file [of file_example True]
    load_ground_truth_fails_only_on_short_file [of "take 15 file_example" False]
    load_ground_truth_fails_only_on_short_file [of "take 7 file_example" False]
  by (simp add: header_size_def file_example_def le_u32_one view_u32_def le_u32_def)

text \<open>
  The claim as stated fails: a file one byte longer than its header declares is loaded,
  and the views are returned.
\<close>

theorem load_ground_truth_accepts_oversized_file_counterexample:
  "length file_example \<noteq> header_size file_example
   \<and> load_ground_truth True file_example = Inr ([[5]], [[1065353216]], 1, 1)
   \<and> load_ground_truth False file_example = Inr ([[5]], [[1065353216]], 1, 1)"
  by (simp add: load_ground_truth_def fromfile_u32_def np_memmap_def dists_offset_def
      header_size_def file_example_def view_u32_def le_u32_def)

end
